theory Spec2Isabelle
  imports Complex_Main
begin

section \<open>Python values\<close>

text \<open>
  The load-test engine of \<^verbatim>\<open>src/tools/loadtest.py\<close> works on Python floats (elapsed
  times in milliseconds), unbounded integers, lists, a dictionary and strings. Floats
  are modelled as exact reals: every statement below is about the arithmetic the code
  writes down, not about IEEE rounding. Exceptions are values of \<open>py_error\<close>, carried in
  the left summand of a result.
\<close>

datatype py_error =
  IndexError | ValueError | StatisticsError | ZeroDivisionError | OverflowError

definition py_bind :: "py_error + 'a \<Rightarrow> ('a \<Rightarrow> py_error + 'b) \<Rightarrow> py_error + 'b" where
  "py_bind m f = (case m of Inl e \<Rightarrow> Inl e | Inr v \<Rightarrow> f v)"

text \<open>\<^verbatim>\<open>int(x)\<close> on a float truncates toward zero.\<close>

definition py_int :: "real \<Rightarrow> int" where
  "py_int x = (if 0 \<le> x then \<lfloor>x\<rfloor> else \<lceil>x\<rceil>)"

text \<open>True division \<^verbatim>\<open>a / b\<close> raises ZeroDivisionError on a zero divisor.\<close>

definition py_truediv :: "real \<Rightarrow> real \<Rightarrow> py_error + real" where
  "py_truediv a b = (if b = 0 then Inl ZeroDivisionError else Inr (a / b))"

text \<open>\<^verbatim>\<open>xs[i]\<close>: a negative index counts from the end, anything outside raises.\<close>

definition py_getitem :: "'a list \<Rightarrow> int \<Rightarrow> py_error + 'a" where
  "py_getitem xs i =
     (if 0 \<le> i \<and> i < int (length xs) then Inr (xs ! nat i)
      else if i < 0 \<and> - int (length xs) \<le> i then Inr (xs ! nat (int (length xs) + i))
      else Inl IndexError)"

text \<open>The builtins \<^verbatim>\<open>min\<close> and \<^verbatim>\<open>max\<close> raise ValueError on an empty sequence.\<close>

definition py_min :: "real list \<Rightarrow> py_error + real" where
  "py_min xs = (case xs of [] \<Rightarrow> Inl ValueError | x # rest \<Rightarrow> Inr (fold min rest x))"

definition py_max :: "real list \<Rightarrow> py_error + real" where
  "py_max xs = (case xs of [] \<Rightarrow> Inl ValueError | x # rest \<Rightarrow> Inr (fold max rest x))"

subsection \<open>The \<^verbatim>\<open>statistics\<close> module\<close>

text \<open>
  \<^verbatim>\<open>statistics.mean\<close>, \<^verbatim>\<open>median\<close> and \<^verbatim>\<open>stdev\<close> as the standard library defines them:
  the mean and the median raise StatisticsError on no data, the sample standard
  deviation (divisor \<open>n - 1\<close>) on fewer than two data points.
\<close>

definition mean :: "real list \<Rightarrow> py_error + real" where
  "mean data =
     (if length data < 1 then Inl StatisticsError
      else Inr (sum_list data / real (length data)))"

definition median :: "real list \<Rightarrow> py_error + real" where
  "median data =
     (let srt = sort data; n = length srt in
      if n = 0 then Inl StatisticsError
      else if n mod 2 = 1 then Inr (srt ! (n div 2))
      else Inr ((srt ! (n div 2 - 1) + srt ! (n div 2)) / 2))"

definition stdev :: "real list \<Rightarrow> py_error + real" where
  "stdev data =
     (if length data < 2 then Inl StatisticsError
      else let m = sum_list data / real (length data) in
        Inr (sqrt (sum_list (map (\<lambda>x. (x - m)\<^sup>2) data) / real (length data - 1))))"

section \<open>The statistics reducer\<close>

text \<open>
  \<^verbatim>\<open>LoadTestTool._percentile(sorted_data, percentile)\<close>: linear interpolation between
  the two ranks around the fractional index \<open>k\<close>.
\<close>

definition percentile :: "real list \<Rightarrow> int \<Rightarrow> py_error + real" where
  "percentile sorted_data p =
     (if sorted_data = [] then Inr 0
      else
        let k = real_of_int (int (length sorted_data) - 1) * (real_of_int p / 100);
            f = py_int k;
            c = (if f + 1 < int (length sorted_data) then f + 1 else f)
        in if f = c then py_getitem sorted_data f
           else py_bind (py_getitem sorted_data f) (\<lambda>lo.
                py_bind (py_getitem sorted_data c) (\<lambda>hi.
                Inr (lo * (real_of_int c - k) + hi * (k - real_of_int f)))))"

text \<open>The result dictionary of \<^verbatim>\<open>_calculate_stats\<close>, one field per key.\<close>

record load_test_result =
  total_requests :: int
  successful :: int
  failed :: int
  success_rate :: real
  status_codes :: "int \<rightharpoonup> int"
  errors :: "string list"
  duration :: real
  rps :: real
  avg_response_time :: real
  min_response_time :: real
  max_response_time :: real
  median_response_time :: real
  stdev_response_time :: real
  p95_response_time :: real
  p99_response_time :: real

text \<open>
  \<^verbatim>\<open>LoadTestTool._calculate_stats\<close>. The keys are computed in the order of the source, so
  the first exception, if any, is the one that propagates: the success rate and the
  throughput (each a division behind its guard), then, when there is at least one
  response time, the seven latency keys.
\<close>

definition calculate_stats ::
  "real list \<Rightarrow> (int \<rightharpoonup> int) \<Rightarrow> string list \<Rightarrow> int \<Rightarrow> real \<Rightarrow> py_error + load_test_result" where
  "calculate_stats response_times codes errs requests dur =
     (let n_ok = int (length response_times);
          n_failed = requests - n_ok
      in
      py_bind (if requests > 0
               then py_bind (py_truediv (real_of_int n_ok) (real_of_int requests))
                      (\<lambda>q. Inr (q * 100))
               else Inr 0) (\<lambda>rate.
      py_bind (if dur > 0 then py_truediv (real_of_int requests) dur else Inr 0) (\<lambda>per_second.
      let result = \<lparr> total_requests = requests,
                     successful = n_ok,
                     failed = n_failed,
                     success_rate = rate,
                     status_codes = codes,
                     errors = take 10 errs,
                     duration = dur,
                     rps = per_second,
                     avg_response_time = 0, min_response_time = 0,
                     max_response_time = 0, median_response_time = 0,
                     stdev_response_time = 0, p95_response_time = 0,
                     p99_response_time = 0 \<rparr>
      in if response_times \<noteq> [] then
           let sorted_times = sort response_times in
           py_bind (mean response_times) (\<lambda>avg.
           py_bind (py_min response_times) (\<lambda>lo.
           py_bind (py_max response_times) (\<lambda>hi.
           py_bind (median response_times) (\<lambda>med.
           py_bind (if length response_times > 1 then stdev response_times else Inr 0) (\<lambda>sd.
           py_bind (percentile sorted_times 95) (\<lambda>p95.
           py_bind (percentile sorted_times 99) (\<lambda>p99.
           Inr (result\<lparr> avg_response_time := avg, min_response_time := lo,
                        max_response_time := hi, median_response_time := med,
                        stdev_response_time := sd, p95_response_time := p95,
                        p99_response_time := p99 \<rparr>))))))))
         else Inr result)))"

text \<open>
  The percentile as the specification words it (method R-7): the value at the
  fractional rank \<open>k\<close> of an ascending list, and the percentile \<open>p\<close> as the value at
  rank \<open>(n - 1) * (p / 100)\<close>.
\<close>

definition r7_interpolate :: "real list \<Rightarrow> real \<Rightarrow> real" where
  "r7_interpolate srt k =
     (let f = nat \<lfloor>k\<rfloor>;
          c = min (f + 1) (length srt - 1)
      in if f = c then srt ! f else srt ! f + (srt ! c - srt ! f) * (k - real f))"

definition r7_percentile :: "real list \<Rightarrow> real \<Rightarrow> real" where
  "r7_percentile srt p = r7_interpolate srt (real (length srt - 1) * (p / 100))"

section \<open>The same arithmetic in IEEE doubles\<close>

text \<open>
  Python's \<^verbatim>\<open>float\<close> is the IEEE 754 binary64 format. A finite double is given here by
  its exact value, a rational number; the two zeros are one value. Every arithmetic
  operation returns the exact result rounded to the nearest double, ties to the even
  significand: 53 significant bits, gradual underflow below \<open>2 powi (- 1022)\<close>, an
  infinity from \<open>2 powi 1024\<close> on.
\<close>

datatype f64 = Finite rat | Infinity bool | NaN

text \<open>The number of binary digits of a natural number.\<close>

fun bit_length :: "nat \<Rightarrow> nat" where
  "bit_length n = (if n = 0 then 0 else Suc (bit_length (n div 2)))"

declare bit_length.simps [simp del]

text \<open>
  For a positive rational \<open>x\<close>, the exponent \<open>e\<close> with \<open>2 powi e \<le> x < 2 powi (e + 1)\<close>,
  from the digit counts of numerator and denominator.
\<close>

definition floor_log2 :: "rat \<Rightarrow> int" where
  "floor_log2 x =
     (let e0 = int (bit_length (nat (fst (quotient_of x))))
               - int (bit_length (nat (snd (quotient_of x))))
      in if 2 powi e0 \<le> x then e0 else e0 - 1)"

definition round_half_even :: "rat \<Rightarrow> int" where
  "round_half_even q =
     (let n = \<lfloor>q\<rfloor>; d = q - of_int n
      in if d < 1 / 2 then n else if 1 / 2 < d then n + 1 else if even n then n else n + 1)"

definition f64_round :: "rat \<Rightarrow> f64" where
  "f64_round x =
     (if x = 0 then Finite 0
      else
        let quantum = 2 powi (max (floor_log2 \<bar>x\<bar>) (- 1022) - 52);
            y = of_int (round_half_even (\<bar>x\<bar> / quantum)) * quantum
        in if 2 powi 1024 \<le> y then Infinity (x < 0)
           else Finite (if x < 0 then - y else y))"

text \<open>
  Negation, addition, subtraction and multiplication of doubles; the boolean of an
  infinity says whether it is the negative one.
\<close>

fun f64_neg :: "f64 \<Rightarrow> f64" where
  "f64_neg (Finite x) = Finite (- x)"
| "f64_neg (Infinity negative) = Infinity (\<not> negative)"
| "f64_neg NaN = NaN"

fun f64_add :: "f64 \<Rightarrow> f64 \<Rightarrow> f64" where
  "f64_add (Finite x) (Finite y) = f64_round (x + y)"
| "f64_add NaN b = NaN"
| "f64_add a NaN = NaN"
| "f64_add (Infinity s) (Infinity t) = (if s = t then Infinity s else NaN)"
| "f64_add (Infinity s) (Finite y) = Infinity s"
| "f64_add (Finite x) (Infinity t) = Infinity t"

definition f64_sub :: "f64 \<Rightarrow> f64 \<Rightarrow> f64" where
  "f64_sub a b = f64_add a (f64_neg b)"

fun f64_mul :: "f64 \<Rightarrow> f64 \<Rightarrow> f64" where
  "f64_mul (Finite x) (Finite y) = f64_round (x * y)"
| "f64_mul NaN b = NaN"
| "f64_mul a NaN = NaN"
| "f64_mul (Infinity s) (Infinity t) = Infinity (s \<noteq> t)"
| "f64_mul (Infinity s) (Finite y) = (if y = 0 then NaN else Infinity (s \<noteq> (y < 0)))"
| "f64_mul (Finite x) (Infinity t) = (if x = 0 then NaN else Infinity (t \<noteq> (x < 0)))"


definition f64_of_int :: "int \<Rightarrow> py_error + f64" where
  "f64_of_int i =
     (case f64_round (of_int i) of Finite x \<Rightarrow> Inr (Finite x) | _ \<Rightarrow> Inl OverflowError)"

definition int_truediv :: "int \<Rightarrow> int \<Rightarrow> py_error + f64" where
  "int_truediv a b =
     (if b = 0 then Inl ZeroDivisionError
      else case f64_round (of_int a / of_int b) of
             Finite x \<Rightarrow> Inr (Finite x)
           | _ \<Rightarrow> Inl OverflowError)"

definition f64_to_int :: "f64 \<Rightarrow> py_error + int" where
  "f64_to_int v =
     (case v of
        Finite x \<Rightarrow> Inr (if 0 \<le> x then \<lfloor>x\<rfloor> else \<lceil>x\<rceil>)
      | Infinity s \<Rightarrow> Inl OverflowError
      | NaN \<Rightarrow> Inl ValueError)"

text \<open>
  \<^verbatim>\<open>_percentile\<close> and \<^verbatim>\<open>statistics.median\<close> once more, operation by operation as above,
  on a sample of finite doubles; the operands are evaluated in the order of the
  source.
\<close>

definition percentile_f64 :: "rat list \<Rightarrow> int \<Rightarrow> py_error + f64" where
  "percentile_f64 sorted_data p =
     (if sorted_data = [] then Inr (Finite 0)
      else
        py_bind (int_truediv p 100) (\<lambda>q.
        py_bind (f64_of_int (int (length sorted_data) - 1)) (\<lambda>n1.
        let k = f64_mul n1 q in
        py_bind (f64_to_int k) (\<lambda>f.
        let c = (if f + 1 < int (length sorted_data) then f + 1 else f) in
        if f = c then py_bind (py_getitem sorted_data f) (\<lambda>v. Inr (Finite v))
        else py_bind (py_getitem sorted_data f) (\<lambda>lo.
             py_bind (f64_of_int c) (\<lambda>cf.
             let left = f64_mul (Finite lo) (f64_sub cf k) in
             py_bind (py_getitem sorted_data c) (\<lambda>hi.
             py_bind (f64_of_int f) (\<lambda>ff.
             Inr (f64_add left (f64_mul (Finite hi) (f64_sub k ff)))))))))))"


section \<open>The run\<close>

subsection \<open>One HTTP request\<close>

text \<open>
  The call \<^verbatim>\<open>make_request\<close> issues on the \<^verbatim>\<open>httpx\<close> client, chosen by the upper-cased
  method. \<^verbatim>\<open>client.get\<close> and \<^verbatim>\<open>client.delete\<close> are called with the URL and the headers
  only; \<^verbatim>\<open>post\<close>, \<^verbatim>\<open>put\<close> and the generic \<^verbatim>\<open>request\<close> also get \<^verbatim>\<open>content=body\<close>.
  Method names are ASCII strings; \<open>upper\<close> is \<^verbatim>\<open>str.upper\<close> on them.
\<close>

type_synonym headers = "(string \<times> string) list"

datatype client_call =
    ClientGet string "headers option"
  | ClientPost string "headers option" "string option"
  | ClientPut string "headers option" "string option"
  | ClientDelete string "headers option"
  | ClientRequest string string "headers option" "string option"

definition upper_char :: "char \<Rightarrow> char" where
  "upper_char ch =
     (case map_of (zip ''abcdefghijklmnopqrstuvwxyz'' ''ABCDEFGHIJKLMNOPQRSTUVWXYZ'') ch of
        None \<Rightarrow> ch | Some u \<Rightarrow> u)"

definition upper :: "string \<Rightarrow> string" where
  "upper s = map upper_char s"

definition client_call_for ::
  "string \<Rightarrow> string \<Rightarrow> headers option \<Rightarrow> string option \<Rightarrow> client_call" where
  "client_call_for method url hdrs body =
     (if upper method = ''GET'' then ClientGet url hdrs
      else if upper method = ''POST'' then ClientPost url hdrs body
      else if upper method = ''PUT'' then ClientPut url hdrs body
      else if upper method = ''DELETE'' then ClientDelete url hdrs
      else ClientRequest method url hdrs body)"

text \<open>What a call hands to the client: its \<^verbatim>\<open>headers=\<close> and its \<^verbatim>\<open>content=\<close> argument.\<close>

fun passed_headers :: "client_call \<Rightarrow> headers option" where
  "passed_headers (ClientGet u h) = h"
| "passed_headers (ClientPost u h b) = h"
| "passed_headers (ClientPut u h b) = h"
| "passed_headers (ClientDelete u h) = h"
| "passed_headers (ClientRequest m u h b) = h"

fun passed_content :: "client_call \<Rightarrow> string option" where
  "passed_content (ClientGet u h) = None"
| "passed_content (ClientPost u h b) = b"
| "passed_content (ClientPut u h b) = b"
| "passed_content (ClientDelete u h) = None"
| "passed_content (ClientRequest m u h b) = b"

text \<open>
  How the awaited call ends: with a response (the measured elapsed milliseconds and
  the status code), or with an exception. The handlers of \<^verbatim>\<open>make_request\<close> tell three
  classes apart, in this order: \<^verbatim>\<open>httpx.TimeoutException\<close>, \<^verbatim>\<open>httpx.ConnectError\<close>, and
  any other \<^verbatim>\<open>Exception\<close>; each carries its message \<^verbatim>\<open>str(e)\<close>.
\<close>

datatype http_exception =
    TimeoutException string
  | ConnectError string
  | OtherException string

datatype http_outcome = Response real int | Raised http_exception

text \<open>\<^verbatim>\<open>str(request_id)\<close>, the decimal digits of a non-negative integer.\<close>

fun str_nat :: "nat \<Rightarrow> string" where
  "str_nat n =
     (if n < 10 then [''0123456789'' ! n]
      else str_nat (n div 10) @ [''0123456789'' ! (n mod 10)])"

text \<open>The entry the matching \<^verbatim>\<open>except\<close> clause appends to \<^verbatim>\<open>errors\<close>.\<close>

fun error_entry :: "nat \<Rightarrow> http_exception \<Rightarrow> string" where
  "error_entry request_id (TimeoutException msg) =
     ''Request '' @ str_nat request_id @ '': Timeout''"
| "error_entry request_id (ConnectError msg) =
     ''Request '' @ str_nat request_id @ '': Connection error''"
| "error_entry request_id (OtherException msg) =
     ''Request '' @ str_nat request_id @ '': '' @ msg"

text \<open>
  The exceptions of \<^verbatim>\<open>httpx\<close> (its module \<^verbatim>\<open>_exceptions\<close>) with their base classes;
  \<open>Py_Exception\<close> is \<^verbatim>\<open>Exception\<close> itself and stands for every exception class outside
  \<^verbatim>\<open>httpx\<close>.
\<close>

datatype exception_class =
    Py_Exception
  | Httpx_HTTPError
  | Httpx_RequestError
  | Httpx_TransportError
  | Httpx_TimeoutException
  | Httpx_ConnectTimeout
  | Httpx_ReadTimeout
  | Httpx_WriteTimeout
  | Httpx_PoolTimeout
  | Httpx_NetworkError
  | Httpx_ConnectError
  | Httpx_ReadError
  | Httpx_WriteError
  | Httpx_CloseError
  | Httpx_ProtocolError
  | Httpx_LocalProtocolError
  | Httpx_RemoteProtocolError
  | Httpx_ProxyError
  | Httpx_UnsupportedProtocol
  | Httpx_DecodingError
  | Httpx_TooManyRedirects

fun base_class :: "exception_class \<Rightarrow> exception_class option" where
  "base_class Py_Exception = None"
| "base_class Httpx_HTTPError = Some Py_Exception"
| "base_class Httpx_RequestError = Some Httpx_HTTPError"
| "base_class Httpx_TransportError = Some Httpx_RequestError"
| "base_class Httpx_TimeoutException = Some Httpx_TransportError"
| "base_class Httpx_ConnectTimeout = Some Httpx_TimeoutException"
| "base_class Httpx_ReadTimeout = Some Httpx_TimeoutException"
| "base_class Httpx_WriteTimeout = Some Httpx_TimeoutException"
| "base_class Httpx_PoolTimeout = Some Httpx_TimeoutException"
| "base_class Httpx_NetworkError = Some Httpx_TransportError"
| "base_class Httpx_ConnectError = Some Httpx_NetworkError"
| "base_class Httpx_ReadError = Some Httpx_NetworkError"
| "base_class Httpx_WriteError = Some Httpx_NetworkError"
| "base_class Httpx_CloseError = Some Httpx_NetworkError"
| "base_class Httpx_ProtocolError = Some Httpx_TransportError"
| "base_class Httpx_LocalProtocolError = Some Httpx_ProtocolError"
| "base_class Httpx_RemoteProtocolError = Some Httpx_ProtocolError"
| "base_class Httpx_ProxyError = Some Httpx_TransportError"
| "base_class Httpx_UnsupportedProtocol = Some Httpx_TransportError"
| "base_class Httpx_DecodingError = Some Httpx_RequestError"
| "base_class Httpx_TooManyRedirects = Some Httpx_RequestError"

text \<open>A class with its bases, and \<^verbatim>\<open>isinstance\<close>; no class above is more than five
  steps below \<^verbatim>\<open>Exception\<close>.\<close>

fun bases_upto :: "nat \<Rightarrow> exception_class \<Rightarrow> exception_class list" where
  "bases_upto 0 cls = [cls]"
| "bases_upto (Suc depth) cls =
     cls # (case base_class cls of None \<Rightarrow> [] | Some b \<Rightarrow> bases_upto depth b)"

definition is_instance :: "exception_class \<Rightarrow> exception_class \<Rightarrow> bool" where
  "is_instance cls target = (target \<in> set (bases_upto 5 cls))"

text \<open>A raised exception: its class and its message \<^verbatim>\<open>str(e)\<close>.\<close>

datatype py_exception = Exc exception_class string

text \<open>
  The \<^verbatim>\<open>except\<close> clause of \<^verbatim>\<open>make_request\<close> that catches an exception: the clauses are
  tried in the order of the source, each by \<^verbatim>\<open>isinstance\<close>.
\<close>

definition caught_as :: "py_exception \<Rightarrow> http_exception" where
  "caught_as e =
     (case e of Exc cls msg \<Rightarrow>
        if is_instance cls Httpx_TimeoutException then TimeoutException msg
        else if is_instance cls Httpx_ConnectError then ConnectError msg
        else OtherException msg)"

text \<open>
  What can go wrong on the network during a call, and the exception the \<^verbatim>\<open>httpx\<close>
  transport raises for it: failures while the connection is being set up (name
  resolution, refusal, TLS handshake) are a \<^verbatim>\<open>ConnectError\<close>; a connection lost once it
  is established is a \<^verbatim>\<open>ReadError\<close> or a \<^verbatim>\<open>WriteError\<close>; each expired timeout has its
  own subclass of \<^verbatim>\<open>TimeoutException\<close>.
\<close>

datatype network_failure =
    DnsFailure
  | ConnectionRefused
  | TlsHandshakeFailure
  | ResetWhileReading
  | ResetWhileWriting
  | ConnectTimedOut
  | ReadTimedOut
  | WriteTimedOut
  | PoolTimedOut

fun httpx_raises :: "network_failure \<Rightarrow> exception_class" where
  "httpx_raises DnsFailure = Httpx_ConnectError"
| "httpx_raises ConnectionRefused = Httpx_ConnectError"
| "httpx_raises TlsHandshakeFailure = Httpx_ConnectError"
| "httpx_raises ResetWhileReading = Httpx_ReadError"
| "httpx_raises ResetWhileWriting = Httpx_WriteError"
| "httpx_raises ConnectTimedOut = Httpx_ConnectTimeout"
| "httpx_raises ReadTimedOut = Httpx_ReadTimeout"
| "httpx_raises WriteTimedOut = Httpx_WriteTimeout"
| "httpx_raises PoolTimedOut = Httpx_PoolTimeout"

text \<open>How the awaited call ends, before any handler has looked at it, and what
  \<^verbatim>\<open>make_request\<close> makes of it.\<close>

datatype call_result = Returned real int | Threw py_exception

fun observe :: "call_result \<Rightarrow> http_outcome" where
  "observe (Returned elapsed code) = Response elapsed code"
| "observe (Threw e) = Raised (caught_as e)"

definition observed :: "(nat \<times> call_result) list \<Rightarrow> (nat \<times> http_outcome) list" where
  "observed calls = map (\<lambda>(i, r). (i, observe r)) calls"

text \<open>
  The variables of \<^verbatim>\<open>run\<close> that the request coroutines share. The event loop runs one
  coroutine at a time and switches only at an \<^verbatim>\<open>await\<close>, so each stretch of code between
  two awaits is a single state update. The optional progress callback is the caller's
  and is left out.
\<close>

record run_state =
  s_response_times :: "real list"
  s_status_codes :: "int \<rightharpoonup> int"
  s_errors :: "string list"
  s_completed :: int

definition initial_state :: run_state where
  "initial_state =
     \<lparr> s_response_times = [], s_status_codes = Map.empty, s_errors = [], s_completed = 0 \<rparr>"

definition dict_get :: "(int \<rightharpoonup> int) \<Rightarrow> int \<Rightarrow> int \<Rightarrow> int" where
  "dict_get d key dflt = (case d key of None \<Rightarrow> dflt | Some v \<Rightarrow> v)"

text \<open>
  The three stretches of \<^verbatim>\<open>make_request(request_id)\<close> after the awaited call: the rest of
  the \<^verbatim>\<open>try\<close> body when a response has arrived, the \<^verbatim>\<open>except\<close> clause when the call has
  raised, and the \<^verbatim>\<open>finally\<close> block.
\<close>

definition record_response :: "real \<Rightarrow> int \<Rightarrow> run_state \<Rightarrow> run_state" where
  "record_response elapsed code s =
     s\<lparr> s_response_times := s_response_times s @ [elapsed],
        s_status_codes := (s_status_codes s)(code \<mapsto> dict_get (s_status_codes s) code 0 + 1) \<rparr>"

definition record_failure :: "nat \<Rightarrow> http_exception \<Rightarrow> run_state \<Rightarrow> run_state" where
  "record_failure request_id e s = s\<lparr> s_errors := s_errors s @ [error_entry request_id e] \<rparr>"

definition finally_block :: "run_state \<Rightarrow> run_state" where
  "finally_block s = s\<lparr> s_completed := s_completed s + 1 \<rparr>"

definition make_request :: "nat \<Rightarrow> http_outcome \<Rightarrow> run_state \<Rightarrow> run_state" where
  "make_request request_id outcome s =
     finally_block
       (case outcome of
          Response elapsed code \<Rightarrow> record_response elapsed code s
        | Raised e \<Rightarrow> record_failure request_id e s)"

text \<open>
  The shared variables after the requests have ended in the given order, each entry a
  request id with how its call ended. The response times and the errors are separate
  lists and the status codes are counted, so however the stretches of different
  requests interleave, the variables end as they do for one such list.
\<close>

definition collect :: "(nat \<times> http_outcome) list \<Rightarrow> run_state" where
  "collect completions = fold (\<lambda>(i, outcome). make_request i outcome) completions initial_state"

text \<open>
  \<^verbatim>\<open>run\<close> after \<^verbatim>\<open>asyncio.gather\<close> has returned: the statistics of what was collected,
  for the requested total and the measured duration.
\<close>

definition run :: "int \<Rightarrow> (nat \<times> http_outcome) list \<Rightarrow> real \<Rightarrow> py_error + load_test_result" where
  "run requests completions test_duration =
     (let s = collect completions
      in calculate_stats (s_response_times s) (s_status_codes s) (s_errors s)
           requests test_duration)"

subsection \<open>The semaphore and the interleaving of the requests\<close>
















text \<open>
  Reading a completion list: whether an entry carries a status code, the elapsed times
  of those that do, and the diagnostics of those that do not, both in list order.
\<close>

fun has_status_code :: "nat \<times> http_outcome \<Rightarrow> bool" where
  "has_status_code (i, Response elapsed code) = True"
| "has_status_code (i, Raised e) = False"

fun elapsed_of :: "(nat \<times> http_outcome) list \<Rightarrow> real list" where
  "elapsed_of [] = []"
| "elapsed_of ((i, Response elapsed code) # rest) = elapsed # elapsed_of rest"
| "elapsed_of ((i, Raised e) # rest) = elapsed_of rest"

fun diagnostics_of :: "(nat \<times> http_outcome) list \<Rightarrow> string list" where
  "diagnostics_of [] = []"
| "diagnostics_of ((i, Response elapsed code) # rest) = diagnostics_of rest"
| "diagnostics_of ((i, Raised e) # rest) = error_entry i e # diagnostics_of rest"


section \<open>Properties of the reducer\<close>

subsection \<open>The percentile\<close>

lemma length_pred_real:
  "xs \<noteq> [] \<Longrightarrow> real_of_int (int (length xs) - 1) = real (length xs - 1)"
  by (cases xs) simp_all


lemma sort_not_Nil: "xs \<noteq> [] \<Longrightarrow> sort xs \<noteq> []"
  by (metis length_0_conv length_sort)

lemma frac_index_bounds:
  assumes "xs \<noteq> []" "0 \<le> p" "p \<le> 100"
  defines "k \<equiv> real (length xs - 1) * (real_of_int p / 100)"
  shows "0 \<le> k" "k \<le> real (length xs - 1)" "py_int k = \<lfloor>k\<rfloor>" "0 \<le> \<lfloor>k\<rfloor>"
    "nat \<lfloor>k\<rfloor> < length xs"
proof -
  have q: "0 \<le> real_of_int p / 100" "real_of_int p / 100 \<le> 1"
    using assms(2,3) by simp_all
  show k0: "0 \<le> k"
    unfolding k_def using q by simp
  have "k \<le> real (length xs - 1) * 1"
    unfolding k_def using q by (intro mult_left_mono) simp_all
  then show k1: "k \<le> real (length xs - 1)"
    by simp
  show "py_int k = \<lfloor>k\<rfloor>"
    using k0 by (simp add: py_int_def)
  show "0 \<le> \<lfloor>k\<rfloor>"
    using k0 by simp
  have "\<lfloor>k\<rfloor> \<le> int (length xs - 1)"
    using k1 by (simp add: floor_le_iff)
  then have "nat \<lfloor>k\<rfloor> \<le> length xs - 1"
    by linarith
  moreover have "0 < length xs"
    using assms(1) by simp
  ultimately show "nat \<lfloor>k\<rfloor> < length xs"
    by linarith
qed

lemma percentile_unfold:
  assumes "xs \<noteq> []"
  shows "percentile xs p =
     (let k = real (length xs - 1) * (real_of_int p / 100);
          f = py_int k;
          c = (if f + 1 < int (length xs) then f + 1 else f)
      in if f = c then py_getitem xs f
         else py_bind (py_getitem xs f) (\<lambda>lo.
              py_bind (py_getitem xs c) (\<lambda>hi.
              Inr (lo * (real_of_int c - k) + hi * (k - real_of_int f)))))"
  by (simp only: percentile_def assms if_False length_pred_real[OF assms])

lemma r7_interpolate_eq:
  "f = nat \<lfloor>k\<rfloor> \<Longrightarrow> c = min (f + 1) (length xs - 1) \<Longrightarrow>
   r7_interpolate xs k = (if f = c then xs ! f else xs ! f + (xs ! c - xs ! f) * (k - real f))"
  by (simp add: r7_interpolate_def Let_def)

lemma percentile_r7:
  assumes "xs \<noteq> []" "0 \<le> p" "p \<le> 100"
  shows "percentile xs p = Inr (r7_percentile xs (real_of_int p))"
proof -
  define k where "k = real (length xs - 1) * (real_of_int p / 100)"
  note b = frac_index_bounds[OF assms, folded k_def]
  define f where "f = nat \<lfloor>k\<rfloor>"
  have fi: "py_int k = int f"
    using b(3,4) by (simp add: f_def)
  have fn: "f < length xs"
    using b(5) by (simp add: f_def)
  show ?thesis
  proof (cases "f + 1 < length xs")
    case True
    then have c: "f + 1 = min (f + 1) (length xs - 1)"
      by simp
    have "percentile xs p = Inr (xs ! f * (real (f + 1) - k) + xs ! (f + 1) * (k - real f))"
      unfolding percentile_unfold[OF assms(1)] k_def[symmetric] Let_def fi
      using True fn by (simp add: py_getitem_def py_bind_def nat_add_distrib)
    also have "xs ! f * (real (f + 1) - k) + xs ! (f + 1) * (k - real f)
        = xs ! f + (xs ! (f + 1) - xs ! f) * (k - real f)"
      by (simp add: algebra_simps)
    also have "\<dots> = r7_percentile xs (real_of_int p)"
      unfolding r7_percentile_def k_def[symmetric] r7_interpolate_eq[OF f_def c] by simp
    finally show ?thesis .
  next
    case False
    then have c: "f = min (f + 1) (length xs - 1)"
      using fn by simp
    have "percentile xs p = Inr (xs ! f)"
      unfolding percentile_unfold[OF assms(1)] k_def[symmetric] Let_def fi
      using False fn by (simp add: py_getitem_def py_bind_def)
    also have "xs ! f = r7_percentile xs (real_of_int p)"
      unfolding r7_percentile_def k_def[symmetric] r7_interpolate_eq[OF f_def c] by simp
    finally show ?thesis .
  qed
qed

text \<open>
  C1. On every non-empty ascending list and for the percentiles 95 and 99,
  \<^verbatim>\<open>_percentile\<close> returns the R-7 value of the specification: with
  \<open>k = (n - 1) * (p / 100)\<close>, \<open>f = \<lfloor>k\<rfloor>\<close> and \<open>c = min (f + 1) (n - 1)\<close> it is \<open>sorted[f]\<close>
  when \<open>f = c\<close> and \<open>sorted[f] + (sorted[c] - sorted[f]) * (k - f)\<close> otherwise. The
  code's form \<open>sorted[f] * (c - k) + sorted[c] * (k - f)\<close> is equal to it in exact
  arithmetic, and no index is out of range.
\<close>

theorem percentile_matches_r7:
  assumes "xs \<noteq> []" and "sorted xs" and "p = 95 \<or> p = 99"
  shows "percentile xs p = Inr (r7_percentile xs (real_of_int p))"
  using assms(3) by (intro percentile_r7[OF assms(1)]) auto

theorem percentile_matches_r7_witness:
  "[10, 20, 30, 40 :: real] \<noteq> [] \<and> sorted [10, 20, 30, 40 :: real]
   \<and> r7_percentile [10, 20, 30, 40] 95 = 385 / 10
   \<and> percentile [10, 20, 30, 40] 95 = Inr (385 / 10)"
  using percentile_matches_r7[of "[10, 20, 30, 40]" 95]
  by (simp add: r7_percentile_def r7_interpolate_def)

subsection \<open>Monotonicity of the interpolation\<close>




text \<open>The median is the value at the middle rank.\<close>

lemma median_rank:
  assumes "xs \<noteq> []"
  shows "median xs = Inr (r7_interpolate (sort xs) (real (length xs - 1) / 2))"
proof -
  define n where "n = length xs"
  have n0: "0 < n"
    using assms by (simp add: n_def)
  note sn = sort_not_Nil[OF assms]
  show ?thesis
  proof (cases "n mod 2 = 1")
    case True
    then obtain m where m: "n = 2 * m + 1"
      by (metis mult_div_mod_eq)
    have k: "real (n - 1) / 2 = real m"
      by (simp add: m)
    have "median xs = Inr (sort xs ! m)"
      using True n0 sn by (simp add: median_def Let_def n_def[symmetric] m)
    moreover have "r7_interpolate (sort xs) (real (n - 1) / 2) = sort xs ! m"
      unfolding k by (simp add: r7_interpolate_def Let_def n_def[symmetric])
    ultimately show ?thesis
      by (simp add: n_def)
  next
    case False
    then have "n mod 2 = 0"
      by presburger
    then obtain m where m: "n = 2 * m"
      by (metis mult_div_mod_eq add.right_neutral)
    with n0 obtain j where j: "m = Suc j"
      by (cases m) simp_all
    have k: "real (n - 1) / 2 = real j + 1 / 2"
      by (simp add: m j)
    have fl: "j = nat \<lfloor>real j + 1 / 2\<rfloor>"
      by linarith
    have cj: "Suc j = min (j + 1) (length (sort xs) - 1)"
      by (simp add: n_def[symmetric] m j)
    have "median xs = Inr ((sort xs ! j + sort xs ! Suc j) / 2)"
      using n0 sn by (simp add: median_def Let_def n_def[symmetric] m j)
    moreover have "r7_interpolate (sort xs) (real (n - 1) / 2)
        = (sort xs ! j + sort xs ! Suc j) / 2"
      unfolding k r7_interpolate_eq[OF fl cj] by (simp add: field_simps)
    ultimately show ?thesis
      by (simp add: n_def)
  qed
qed

subsection \<open>The reducer never raises\<close>

lemma guarded_rate:
  "(if requests > 0
    then py_bind (py_truediv a (real_of_int requests)) (\<lambda>q. Inr (q * 100))
    else Inr 0)
   = Inr (if requests > 0 then a / real_of_int requests * 100 else 0)"
  by (simp add: py_truediv_def py_bind_def)

lemma guarded_rps:
  "(if dur > 0 then py_truediv a dur else Inr 0) = Inr (if dur > 0 then a / dur else 0)"
  by (simp add: py_truediv_def)

lemma guarded_stdev:
  "\<exists>sd. (if length xs > 1 then stdev xs else Inr 0) = Inr sd"
  by (simp add: stdev_def Let_def)

lemma py_bind_Inr [simp]: "py_bind (Inr v) f = f v"
  by (simp add: py_bind_def)

lemma calculate_stats_empty:
  "calculate_stats [] codes errs requests dur =
     Inr \<lparr> total_requests = requests, successful = 0, failed = requests,
           success_rate = 0, status_codes = codes, errors = take 10 errs,
           duration = dur, rps = (if dur > 0 then real_of_int requests / dur else 0),
           avg_response_time = 0, min_response_time = 0, max_response_time = 0,
           median_response_time = 0, stdev_response_time = 0, p95_response_time = 0,
           p99_response_time = 0 \<rparr>"
  unfolding calculate_stats_def Let_def guarded_rate guarded_rps by simp

lemma calculate_stats_nonempty:
  assumes "xs \<noteq> []"
  shows "\<exists>sd. calculate_stats xs codes errs requests dur =
     Inr \<lparr> total_requests = requests, successful = int (length xs),
           failed = requests - int (length xs),
           success_rate =
             (if requests > 0 then real (length xs) / real_of_int requests * 100 else 0),
           status_codes = codes, errors = take 10 errs,
           duration = dur, rps = (if dur > 0 then real_of_int requests / dur else 0),
           avg_response_time = sum_list xs / real (length xs),
           min_response_time = fold min (tl xs) (hd xs),
           max_response_time = fold max (tl xs) (hd xs),
           median_response_time = r7_interpolate (sort xs) (real (length xs - 1) / 2),
           stdev_response_time = sd,
           p95_response_time = r7_percentile (sort xs) 95,
           p99_response_time = r7_percentile (sort xs) 99 \<rparr>"
proof -
  obtain sd where sd: "(if length xs > 1 then stdev xs else Inr 0) = Inr sd"
    using guarded_stdev by blast
  have mn: "mean xs = Inr (sum_list xs / real (length xs))"
    using assms by (simp add: mean_def)
  have lo: "py_min xs = Inr (fold min (tl xs) (hd xs))"
    using assms by (cases xs) (simp_all add: py_min_def)
  have hi: "py_max xs = Inr (fold max (tl xs) (hd xs))"
    using assms by (cases xs) (simp_all add: py_max_def)
  note sn = sort_not_Nil[OF assms]
  have p95: "percentile (sort xs) 95 = Inr (r7_percentile (sort xs) 95)"
    using percentile_r7[OF sn, of 95] by simp
  have p99: "percentile (sort xs) 99 = Inr (r7_percentile (sort xs) 99)"
    using percentile_r7[OF sn, of 99] by simp
  have "calculate_stats xs codes errs requests dur =
     Inr \<lparr> total_requests = requests, successful = int (length xs),
           failed = requests - int (length xs),
           success_rate =
             (if requests > 0 then real (length xs) / real_of_int requests * 100 else 0),
           status_codes = codes, errors = take 10 errs,
           duration = dur, rps = (if dur > 0 then real_of_int requests / dur else 0),
           avg_response_time = sum_list xs / real (length xs),
           min_response_time = fold min (tl xs) (hd xs),
           max_response_time = fold max (tl xs) (hd xs),
           median_response_time = r7_interpolate (sort xs) (real (length xs - 1) / 2),
           stdev_response_time = sd,
           p95_response_time = r7_percentile (sort xs) 95,
           p99_response_time = r7_percentile (sort xs) 99 \<rparr>"
    unfolding calculate_stats_def Let_def guarded_rate guarded_rps sd mn lo hi
      median_rank[OF assms] p95 p99
    using assms by simp
  then show ?thesis ..
qed

lemma calculate_stats_fields:
  assumes "xs \<noteq> []"
  shows "\<exists>r. calculate_stats xs codes errs requests dur = Inr r
     \<and> total_requests r = requests \<and> successful r = int (length xs)
     \<and> failed r = requests - int (length xs)
     \<and> success_rate r
         = (if requests > 0 then real (length xs) / real_of_int requests * 100 else 0)
     \<and> status_codes r = codes \<and> errors r = take 10 errs
     \<and> avg_response_time r = sum_list xs / real (length xs)
     \<and> median_response_time r = r7_interpolate (sort xs) (real (length xs - 1) / 2)
     \<and> p95_response_time r = r7_percentile (sort xs) 95
     \<and> p99_response_time r = r7_percentile (sort xs) 99"
proof -
  from calculate_stats_nonempty[OF assms, of codes errs requests dur]
  obtain sd where eq: "calculate_stats xs codes errs requests dur =
     Inr \<lparr> total_requests = requests, successful = int (length xs),
           failed = requests - int (length xs),
           success_rate =
             (if requests > 0 then real (length xs) / real_of_int requests * 100 else 0),
           status_codes = codes, errors = take 10 errs,
           duration = dur, rps = (if dur > 0 then real_of_int requests / dur else 0),
           avg_response_time = sum_list xs / real (length xs),
           min_response_time = fold min (tl xs) (hd xs),
           max_response_time = fold max (tl xs) (hd xs),
           median_response_time = r7_interpolate (sort xs) (real (length xs - 1) / 2),
           stdev_response_time = sd,
           p95_response_time = r7_percentile (sort xs) 95,
           p99_response_time = r7_percentile (sort xs) 99 \<rparr>" ..
  show ?thesis
    unfolding eq by simp
qed

lemma calculate_stats_counts:
  "\<exists>r. calculate_stats xs codes errs requests dur = Inr r
     \<and> total_requests r = requests \<and> successful r = int (length xs)
     \<and> failed r = requests - int (length xs) \<and> errors r = take 10 errs
     \<and> status_codes r = codes"
proof (cases "xs = []")
  case True
  then show ?thesis
    by (simp add: calculate_stats_empty)
next
  case False
  from calculate_stats_fields[OF False, of codes errs requests dur]
  show ?thesis
    by (elim exE conjE) (intro exI conjI; assumption)
qed

subsection \<open>Rounding to doubles\<close>

text \<open>
  The rounding is fixed by the binade of its argument: once
  \<open>2 powi e \<le> x < 2 powi (e + 1)\<close> is known, \<open>f64_round x\<close> is the nearest multiple of
  \<open>2 powi (e - 52)\<close>. The single operations of the two computations below are
  evaluated with this.
\<close>

lemma bit_length_bounds:
  "0 < n \<Longrightarrow> 2 ^ (bit_length n - 1) \<le> n \<and> n < 2 ^ bit_length n"
proof (induction n rule: bit_length.induct)
  case (1 n)
  show ?case
  proof (cases "n div 2 = 0")
    case True
    with 1(2) have "n = 1" by (simp add: div_eq_0_iff) 
    then show ?thesis by (simp add: bit_length.simps[of "Suc 0"] bit_length.simps[of 0])
  next
    case False
    then have pos: "0 < n div 2" by simp
    from 1(1)[OF _ pos] 1(2)
    have ih: "2 ^ (bit_length (n div 2) - 1) \<le> n div 2" "n div 2 < 2 ^ bit_length (n div 2)"
      by simp_all
    have bl: "bit_length n = Suc (bit_length (n div 2))"
      using 1(2) by (simp add: bit_length.simps[of n])
    have blpos: "0 < bit_length (n div 2)"
      using pos by (simp add: bit_length.simps[of "n div 2"])
    then obtain j where j: "bit_length (n div 2) = Suc j" by (cases "bit_length (n div 2)") simp_all
    have "2 * 2 ^ j \<le> n" using ih(1) by (simp add: j) 
    moreover have "n < 2 * 2 ^ Suc j" using ih(2) by (simp add: j)
    ultimately show ?thesis by (simp add: bl j)
  qed
qed


lemma bit_length_rat:
  assumes "0 < a"
  shows "2 powi (int (bit_length (nat a)) - 1) \<le> (of_int a :: rat)"
    and "(of_int a :: rat) < 2 powi (int (bit_length (nat a)))"
proof -
  define n where "n = nat a"
  have n: "0 < n" using assms by (simp add: n_def)
  have an: "(of_int a :: rat) = of_nat n" using assms by (simp add: n_def)
  from bit_length_bounds[OF n]
  have b: "2 ^ (bit_length n - 1) \<le> n" "n < 2 ^ bit_length n" by simp_all
  have "0 < bit_length n" using n by (simp add: bit_length.simps[of n])
  then obtain j where j: "bit_length n = Suc j" by (cases "bit_length n") simp_all
  have "(of_nat (2 ^ j) :: rat) \<le> of_nat n"
    using b(1) unfolding j of_nat_le_iff by simp
  then have lo: "(2::rat) ^ j \<le> of_nat n" by simp
  have "(of_nat n :: rat) < of_nat (2 ^ Suc j)"
    using b(2) unfolding j of_nat_less_iff by simp
  then have hi: "(of_nat n :: rat) < 2 ^ Suc j" by simp
  have "int (Suc j) - 1 = int j" by simp
  then have p1: "(2::rat) powi (int (Suc j) - 1) = 2 ^ j" by (simp only: power_int_of_nat)
  have p2: "(2::rat) powi (int (Suc j)) = 2 ^ Suc j" by (rule power_int_of_nat)
  show "2 powi (int (bit_length (nat a)) - 1) \<le> (of_int a :: rat)"
    unfolding n_def[symmetric] j an p1 by (rule lo)
  show "(of_int a :: rat) < 2 powi (int (bit_length (nat a)))"
    unfolding n_def[symmetric] j an p2 by (rule hi)
qed

lemma powi2_less_cancel:
  assumes "(2::rat) powi a < 2 powi b"
  shows "a < b"
proof (rule ccontr)
  assume "\<not> a < b"
  then have "b \<le> a" by simp
  then have "(2::rat) powi b \<le> 2 powi a" by (intro power_int_increasing) simp_all
  with assms show False by simp
qed

lemma floor_log2_unique:
  assumes x: "0 < x" and lo: "2 powi e \<le> x" and hi: "x < 2 powi (e + 1)"
  shows "floor_log2 x = e"
proof -
  obtain a b where q: "quotient_of x = (a, b)" by (cases "quotient_of x")
  then have b: "0 < b" by (rule quotient_of_denom_pos)
  have xab: "x = of_int a / of_int b" using q by (rule quotient_of_div)
  have a: "0 < a" using x b xab by (simp add: zero_less_divide_iff)
  define la where "la = int (bit_length (nat a))"
  define lb where "lb = int (bit_length (nat b))"
  note ba = bit_length_rat[OF a, folded la_def]
  note bb = bit_length_rat[OF b, folded lb_def]
  have bpos: "(0::rat) < of_int b" using b by simp
  have up: "x < 2 powi (la - lb + 1)"
  proof -
    have "x * of_int b = of_int a" using bpos by (simp add: xab)
    also have "\<dots> < (2::rat) powi la" by (rule ba(2))
    also have "\<dots> = 2 powi (la - lb + 1) * 2 powi (lb - 1)"
      by (simp add: power_int_add[symmetric])
    also have "\<dots> \<le> 2 powi (la - lb + 1) * of_int b"
      using bb(1) by (intro mult_left_mono) simp_all
    finally show ?thesis using bpos by simp
  qed
  have down: "2 powi (la - lb - 1) < x"
  proof -
    have "(2::rat) powi (la - lb - 1) * of_int b < 2 powi (la - lb - 1) * 2 powi lb"
      using bb(2) by (intro mult_strict_left_mono) simp_all
    also have "\<dots> = 2 powi (la - 1)"
      by (simp add: power_int_add[symmetric])
    also have "\<dots> \<le> of_int a" by (rule ba(1))
    also have "\<dots> = x * of_int b" using bpos by (simp add: xab)
    finally show ?thesis using bpos by simp
  qed
  have e1: "e \<le> la - lb"
    using powi2_less_cancel[of e "la - lb + 1"] lo up by simp
  have e2: "la - lb - 1 \<le> e"
    using powi2_less_cancel[of "la - lb - 1" "e + 1"] down hi by simp
  have fl: "floor_log2 x = (if 2 powi (la - lb) \<le> x then la - lb else la - lb - 1)"
    by (simp add: floor_log2_def q la_def lb_def)
  show ?thesis
  proof (cases "2 powi (la - lb) \<le> x")
    case True
    then have "2 powi (la - lb) < (2::rat) powi (e + 1)" using hi by simp
    then have "la - lb < e + 1" by (rule powi2_less_cancel)
    with e1 True show ?thesis by (simp add: fl)
  next
    case False
    then have "e \<noteq> la - lb" using lo by auto
    with e1 e2 False show ?thesis by (simp add: fl)
  qed
qed

lemma floor_rat_numeral:
  "\<lfloor>numeral a / numeral b :: rat\<rfloor> = numeral a div numeral b"
  using floor_divide_of_int_eq[of "numeral a" "numeral b", where ?'a = rat] by simp

lemma f64_round_pos:
  assumes "0 < x" "2 powi e \<le> x" "x < 2 powi (e + 1)"
    and "r = of_int (round_half_even (x / 2 powi (max e (- 1022) - 52)))
             * 2 powi (max e (- 1022) - 52)"
    and "r < 2 powi 1024"
  shows "f64_round x = Finite r"
  using assms(1,5) unfolding assms(4)
  by (simp add: f64_round_def Let_def floor_log2_unique[OF assms(1-3)])

lemma f64_of_int_eval:
  "f64_round (of_int i) = Finite r \<Longrightarrow> f64_of_int i = Inr (Finite r)"
  by (simp add: f64_of_int_def)

lemma int_truediv_eval:
  "b \<noteq> 0 \<Longrightarrow> f64_round (of_int a / of_int b) = Finite r \<Longrightarrow> int_truediv a b = Inr (Finite r)"
  by (simp add: int_truediv_def)

lemmas f64_eval = round_half_even_def Let_def floor_rat_numeral

text \<open>The percentile of scenario A, and the median and the percentile of the sample
  of two equal values 1.3 (the double nearest to it), step by step.\<close>

lemma ieee_95_over_100:
  "int_truediv 95 100 = Inr (Finite (4278419646001971 / 4503599627370496))"
  by (rule int_truediv_eval, simp, rule f64_round_pos[where e = "-1"])
    (simp_all add: f64_eval)

lemma ieee_int_9:
  "f64_of_int 9 = Inr (Finite 9)"
  by (rule f64_of_int_eval, rule f64_round_pos[where e = "3"]) (simp_all add: f64_eval)

lemma ieee_a_k:
  "f64_mul (Finite 9) (Finite (4278419646001971 / 4503599627370496))
     = Finite (4813222101752217 / 562949953421312)"
  unfolding f64_mul.simps
  by (rule f64_round_pos[where e = "3"]) (simp_all add: f64_eval)

lemma ieee_a_floor:
  "f64_to_int (Finite (4813222101752217 / 562949953421312)) = Inr 8"
  by (simp add: f64_to_int_def floor_rat_numeral)

lemma ieee_a_c_minus_k:
  "f64_sub (Finite 9) (Finite (4813222101752217 / 562949953421312))
     = Finite (253327479039591 / 562949953421312)"
  unfolding f64_sub_def f64_neg.simps f64_add.simps
  by (rule f64_round_pos[where e = "-2"]) (simp_all add: f64_eval)

lemma ieee_a_left:
  "f64_mul (Finite 100) (Finite (253327479039591 / 562949953421312))
     = Finite (6333186975989775 / 140737488355328)"
  unfolding f64_mul.simps
  by (rule f64_round_pos[where e = "5"]) (simp_all add: f64_eval)

lemma ieee_int_8:
  "f64_of_int 8 = Inr (Finite 8)"
  by (rule f64_of_int_eval, rule f64_round_pos[where e = "3"]) (simp_all add: f64_eval)

lemma ieee_a_k_minus_f:
  "f64_sub (Finite (4813222101752217 / 562949953421312)) (Finite 8)
     = Finite (309622474381721 / 562949953421312)"
  unfolding f64_sub_def f64_neg.simps f64_add.simps
  by (rule f64_round_pos[where e = "-1"]) (simp_all add: f64_eval)

lemma ieee_a_right:
  "f64_mul (Finite 1000) (Finite (309622474381721 / 562949953421312))
     = Finite (4837851162214391 / 8796093022208)"
  unfolding f64_mul.simps
  by (rule f64_round_pos[where e = "9"]) (simp_all add: f64_eval)

lemma ieee_a_sum:
  "f64_add (Finite (6333186975989775 / 140737488355328)) (Finite (4837851162214391 / 8796093022208))
     = Finite (654209418526719 / 1099511627776)"
  unfolding f64_add.simps
  by (rule f64_round_pos[where e = "9"]) (simp_all add: f64_eval)












lemma scenario_a_p95_f64:
  "percentile_f64 [100, 100, 100, 100, 100, 100, 100, 100, 100, 1000] 95
     = Inr (Finite (654209418526719 / 1099511627776))"
  by (simp add: percentile_f64_def py_getitem_def ieee_95_over_100 ieee_int_9 ieee_a_k
      ieee_a_floor ieee_a_c_minus_k ieee_a_left ieee_int_8 ieee_a_k_minus_f ieee_a_right
      ieee_a_sum
      del: f64_mul.simps f64_add.simps)


text \<open>
  C2, as stated, fails on the p95: the code computes in doubles, where \<open>k\<close> is
  8.549999999999999 and the interpolation gives 594.9999999999991, not 595.
\<close>

theorem scenario_a_p95_below_595:
  "percentile_f64 (sort [100, 100, 100, 100, 100, 100, 100, 100, 100, 1000]) 95
     = Inr (Finite (654209418526719 / 1099511627776))
   \<and> (654209418526719 / 1099511627776) < (595 :: rat)"
  by (simp add: scenario_a_p95_f64)

text \<open>
  C2, amended. Scenario A: ten completed requests with elapsed times nine times 100 ms
  and once 1000 ms, \<open>total_requests = 10\<close>, no failure. The reducer returns mean 190,
  minimum 100, maximum 1000, median 100, success rate 100 and no failed request. Its
  p95 is the interpolation between 100 and 1000 at rank \<open>k = 8.55\<close>: 595 in exact
  arithmetic, and 594.9999999999991 in the doubles the code computes with, less than
  595 by under \<open>1 / 10 ^ 12\<close>.
\<close>

theorem scenario_a_exact_and_doubles:
  "(\<exists>r. calculate_stats [100, 100, 100, 100, 100, 100, 100, 100, 100, 1000] codes [] 10 dur
          = Inr r
     \<and> avg_response_time r = 190 \<and> min_response_time r = 100
     \<and> max_response_time r = 1000 \<and> median_response_time r = 100
     \<and> p95_response_time r = 595 \<and> success_rate r = 100 \<and> failed r = 0)
   \<and> percentile_f64 (sort [100, 100, 100, 100, 100, 100, 100, 100, 100, 1000]) 95
       = Inr (Finite (654209418526719 / 1099511627776))
   \<and> 595 - 1 / 10 ^ 12 < (654209418526719 / 1099511627776 :: rat)
   \<and> (654209418526719 / 1099511627776) < (595 :: rat)"
proof -
  have exact: "\<exists>r.
       calculate_stats [100, 100, 100, 100, 100, 100, 100, 100, 100, 1000] codes [] 10 dur
          = Inr r
     \<and> avg_response_time r = 190 \<and> min_response_time r = 100
     \<and> max_response_time r = 1000 \<and> median_response_time r = 100
     \<and> p95_response_time r = 595 \<and> success_rate r = 100 \<and> failed r = 0"
    by (simp add: calculate_stats_def mean_def py_min_def py_max_def median_def stdev_def
        percentile_def py_int_def py_getitem_def py_truediv_def)
  have doubles: "percentile_f64 (sort [100, 100, 100, 100, 100, 100, 100, 100, 100, 1000]) 95
       = Inr (Finite (654209418526719 / 1099511627776))"
    by (simp add: scenario_a_p95_f64)
  have near: "595 - 1 / 10 ^ 12 < (654209418526719 / 1099511627776 :: rat)"
    "(654209418526719 / 1099511627776) < (595 :: rat)"
    by simp_all
  from exact doubles near show ?thesis
    by (intro conjI)
qed

text \<open>
  C3. With no completed request the reducer returns a result (no ZeroDivisionError,
  no StatisticsError, no other exception), all seven latency fields are 0, the success
  rate is 0 when \<open>total_requests = 0\<close> and the throughput is 0 when the duration is 0.
\<close>

theorem no_completed_outcomes_all_zero:
  "\<exists>r. calculate_stats [] codes errs requests dur = Inr r
     \<and> avg_response_time r = 0 \<and> min_response_time r = 0 \<and> max_response_time r = 0
     \<and> median_response_time r = 0 \<and> stdev_response_time r = 0
     \<and> p95_response_time r = 0 \<and> p99_response_time r = 0
     \<and> (requests = 0 \<longrightarrow> success_rate r = 0)
     \<and> (dur = 0 \<longrightarrow> rps r = 0)"
  by (simp add: calculate_stats_empty)

theorem no_completed_outcomes_all_zero_witness:
  "\<exists>r. calculate_stats [] Map.empty [] 0 0 = Inr r
     \<and> successful r = 0 \<and> failed r = 0 \<and> success_rate r = 0 \<and> rps r = 0
     \<and> avg_response_time r = 0 \<and> min_response_time r = 0 \<and> max_response_time r = 0
     \<and> median_response_time r = 0 \<and> stdev_response_time r = 0
     \<and> p95_response_time r = 0 \<and> p99_response_time r = 0"
  using no_completed_outcomes_all_zero[of Map.empty "[]" 0 0]
  by (simp add: calculate_stats_empty)

text \<open>
  C10. With exactly one completed request of elapsed time \<open>t\<close> the reducer returns a
  result whose mean, minimum, maximum, median, p95 and p99 are all \<open>t\<close> and whose
  standard deviation is 0: \<^verbatim>\<open>statistics.stdev\<close> is not called, and both percentiles
  read index 0.
\<close>

theorem single_sample_statistics:
  "\<exists>r. calculate_stats [t] codes errs requests dur = Inr r
     \<and> avg_response_time r = t \<and> min_response_time r = t \<and> max_response_time r = t
     \<and> median_response_time r = t \<and> p95_response_time r = t \<and> p99_response_time r = t
     \<and> stdev_response_time r = 0"
  by (simp add: calculate_stats_def mean_def py_min_def py_max_def median_def
      percentile_def py_int_def py_getitem_def py_truediv_def py_bind_def)




section \<open>Properties of the run\<close>

subsection \<open>What the requests leave in the shared variables\<close>

lemma make_request_response:
  "make_request i (Response elapsed code) s =
     s\<lparr> s_response_times := s_response_times s @ [elapsed],
        s_status_codes := (s_status_codes s)(code \<mapsto> dict_get (s_status_codes s) code 0 + 1),
        s_completed := s_completed s + 1 \<rparr>"
  by (simp add: make_request_def record_response_def finally_block_def)

lemma make_request_raised:
  "make_request i (Raised e) s =
     s\<lparr> s_errors := s_errors s @ [error_entry i e], s_completed := s_completed s + 1 \<rparr>"
  by (simp add: make_request_def record_failure_def finally_block_def)

lemma fold_make_request:
  "s_response_times (fold (\<lambda>(i, outcome). make_request i outcome) cs s)
     = s_response_times s @ elapsed_of cs
   \<and> s_errors (fold (\<lambda>(i, outcome). make_request i outcome) cs s)
     = s_errors s @ diagnostics_of cs
   \<and> s_completed (fold (\<lambda>(i, outcome). make_request i outcome) cs s)
     = s_completed s + int (length cs)"
proof (induction cs arbitrary: s rule: elapsed_of.induct)
  case 1
  show ?case by simp
next
  case (2 i elapsed code rest)
  show ?case
    by (simp add: 2 make_request_response)
next
  case (3 i e rest)
  show ?case
    by (simp add: 3 make_request_raised)
qed

lemma collect_fields:
  "s_response_times (collect cs) = elapsed_of cs"
  "s_errors (collect cs) = diagnostics_of cs"
  "s_completed (collect cs) = int (length cs)"
  using fold_make_request[of cs initial_state]
  by (simp_all add: collect_def initial_state_def)

lemma length_elapsed_of: "length (elapsed_of cs) = length (filter has_status_code cs)"
  by (induction cs rule: elapsed_of.induct) simp_all

lemma length_diagnostics_of:
  "length (diagnostics_of cs) = length (filter (\<lambda>c. \<not> has_status_code c) cs)"
  by (induction cs rule: diagnostics_of.induct) simp_all

lemma outcomes_partition:
  "length (elapsed_of cs) + length (diagnostics_of cs) = length cs"
  by (induction cs rule: elapsed_of.induct) simp_all

lemma elapsed_of_all_failed:
  "\<forall>c \<in> set cs. \<not> has_status_code c \<Longrightarrow> elapsed_of cs = []"
  by (induction cs rule: elapsed_of.induct) simp_all

lemma run_counts:
  "\<exists>r. run requests cs dur = Inr r
     \<and> total_requests r = requests \<and> successful r = int (length (elapsed_of cs))
     \<and> failed r = requests - int (length (elapsed_of cs))
     \<and> errors r = take 10 (diagnostics_of cs)"
  using calculate_stats_counts[of "elapsed_of cs" "s_status_codes (collect cs)"
      "diagnostics_of cs" requests dur]
  by (simp add: run_def Let_def collect_fields) blast

text \<open>
  C4. Whatever outcomes the reducer is fed and whatever the total, it returns a result
  in which \<open>successful\<close> is the number of outcomes with a status code, \<open>failed\<close> is
  \<open>total_requests - successful\<close>, and \<open>successful + failed = total_requests\<close>.
\<close>

theorem successful_plus_failed:
  "\<exists>r. run requests cs dur = Inr r
     \<and> total_requests r = requests
     \<and> successful r = int (length (filter has_status_code cs))
     \<and> failed r = total_requests r - successful r
     \<and> successful r + failed r = total_requests r"
proof -
  from run_counts[of requests cs dur]
  obtain r where "run requests cs dur = Inr r" "total_requests r = requests"
    "successful r = int (length (elapsed_of cs))"
    "failed r = requests - int (length (elapsed_of cs))"
    by (elim exE conjE)
  then show ?thesis
    by (simp add: length_elapsed_of)
qed

text \<open>
  C5. The \<open>errors\<close> of the result are the first ten diagnostics of the run in the order
  the failures were met (all of them when there are fewer), with no reordering and no
  entry dropped or merged before the cut. With 50 failures the list has exactly ten
  entries; and when every one of the \<open>total_requests\<close> requests has ended, \<open>failed\<close>
  still counts every failure.
\<close>

theorem errors_first_ten:
  "\<exists>r. run requests cs dur = Inr r
     \<and> errors r = take 10 (diagnostics_of cs)
     \<and> length (errors r) = min 10 (length (filter (\<lambda>c. \<not> has_status_code c) cs))
     \<and> (length (filter (\<lambda>c. \<not> has_status_code c) cs) = 50 \<longrightarrow> length (errors r) = 10)
     \<and> (0 \<le> requests \<and> length cs = nat requests
          \<longrightarrow> failed r = int (length (filter (\<lambda>c. \<not> has_status_code c) cs)))"
proof -
  from run_counts[of requests cs dur]
  obtain r where r: "run requests cs dur = Inr r"
    and f: "failed r = requests - int (length (elapsed_of cs))"
    and e: "errors r = take 10 (diagnostics_of cs)"
    by (elim exE conjE)
  have len: "length (errors r) = min 10 (length (filter (\<lambda>c. \<not> has_status_code c) cs))"
    unfolding e by (simp add: length_diagnostics_of min.commute)
  have fl: "failed r = int (length (filter (\<lambda>c. \<not> has_status_code c) cs))"
    if "0 \<le> requests \<and> length cs = nat requests"
    using that outcomes_partition[of cs] unfolding f length_diagnostics_of[symmetric]
    by linarith
  show ?thesis
    using r e len fl by auto
qed

theorem errors_first_ten_witness:
  "\<exists>r. run 50 (map (\<lambda>i. (i, Raised (TimeoutException ''timed out''))) [0..<50]) 2 = Inr r
     \<and> errors r = [''Request 0: Timeout'', ''Request 1: Timeout'', ''Request 2: Timeout'',
          ''Request 3: Timeout'', ''Request 4: Timeout'', ''Request 5: Timeout'',
          ''Request 6: Timeout'', ''Request 7: Timeout'', ''Request 8: Timeout'',
          ''Request 9: Timeout'']
     \<and> length (errors r) = 10 \<and> failed r = 50"
proof -
  define cs where "cs = map (\<lambda>i. (i, Raised (TimeoutException ''timed out''))) [0..<50]"
  have n: "length (filter (\<lambda>c. \<not> has_status_code c) cs) = 50"
    unfolding cs_def by code_simp
  have len: "0 \<le> (50::int) \<and> length cs = nat 50"
    by (simp add: cs_def)
  have d: "take 10 (diagnostics_of cs) =
      [''Request 0: Timeout'', ''Request 1: Timeout'', ''Request 2: Timeout'',
       ''Request 3: Timeout'', ''Request 4: Timeout'', ''Request 5: Timeout'',
       ''Request 6: Timeout'', ''Request 7: Timeout'', ''Request 8: Timeout'',
       ''Request 9: Timeout'']"
    unfolding cs_def by code_simp
  from errors_first_ten[of 50 cs 2]
  obtain r where "run 50 cs 2 = Inr r" "errors r = take 10 (diagnostics_of cs)"
    "length (errors r) = 10" "failed r = 50"
    using n len by auto
  then show ?thesis
    unfolding cs_def[symmetric] d by blast
qed

subsection \<open>Failures\<close>

lemma run_all_failed:
  assumes "\<forall>c \<in> set cs. \<not> has_status_code c"
  shows "run requests cs dur =
     Inr \<lparr> total_requests = requests, successful = 0, failed = requests,
           success_rate = 0, status_codes = s_status_codes (collect cs),
           errors = take 10 (diagnostics_of cs),
           duration = dur, rps = (if dur > 0 then real_of_int requests / dur else 0),
           avg_response_time = 0, min_response_time = 0, max_response_time = 0,
           median_response_time = 0, stdev_response_time = 0, p95_response_time = 0,
           p99_response_time = 0 \<rparr>"
  by (simp add: run_def Let_def collect_fields elapsed_of_all_failed[OF assms]
      calculate_stats_empty)

lemma timeout_classes:
  "is_instance cls Httpx_TimeoutException \<longleftrightarrow>
     cls \<in> {Httpx_TimeoutException, Httpx_ConnectTimeout, Httpx_ReadTimeout,
             Httpx_WriteTimeout, Httpx_PoolTimeout}"
  by (cases cls) (simp_all add: is_instance_def eval_nat_numeral)

lemma connect_error_classes:
  "is_instance cls Httpx_ConnectError \<longleftrightarrow> cls = Httpx_ConnectError"
  by (cases cls) (simp_all add: is_instance_def eval_nat_numeral)

lemma observed_single:
  "diagnostics_of (observed [(i, Threw e)]) = [error_entry i (caught_as e)]"
  by (simp add: observed_def)

text \<open>
  C6, as stated, fails for a connection reset: \<^verbatim>\<open>httpx\<close> raises it as a \<^verbatim>\<open>ReadError\<close>,
  which is not a \<^verbatim>\<open>ConnectError\<close>, so the last \<^verbatim>\<open>except\<close> clause files it with its
  message and not as a connection error.
\<close>

theorem reset_filed_as_other_error:
  "caught_as (Exc (httpx_raises ResetWhileReading) ''Connection reset by peer'')
     = OtherException ''Connection reset by peer''
   \<and> s_errors (collect (observed
        [(0, Threw (Exc (httpx_raises ResetWhileReading) ''Connection reset by peer''))]))
     = [''Request 0: Connection reset by peer'']
   \<and> s_errors (collect (observed
        [(0, Threw (Exc (httpx_raises ResetWhileReading) ''Connection reset by peer''))]))
     \<noteq> [''Request 0: Connection error'']"
  by (simp add: collect_fields observed_single caught_as_def timeout_classes
      connect_error_classes)

text \<open>
  C6, amended. Whatever the calls of a run return or raise, the run returns a result;
  every call that raised has left exactly one entry in \<^verbatim>\<open>errors\<close>, in the order the
  handlers ran, and the result keeps the first ten. An expired timeout (connect, read,
  write or pool) is filed as \<open>Timeout\<close>; a failure to set the connection up (name
  resolution, refused connection, TLS handshake), which \<^verbatim>\<open>httpx\<close> raises as
  \<^verbatim>\<open>ConnectError\<close>, is filed as \<open>Connection error\<close>; a connection reset while reading
  or writing and every other exception is filed with the exception's message. When
  every request failed the result has no successful request, all requests failed,
  success rate 0 and latency fields 0.
\<close>

theorem failures_classified_run_completes:
  "(\<exists>r. run requests (observed calls) dur = Inr r
      \<and> errors r = take 10 (diagnostics_of (observed calls))
      \<and> ((\<forall>c \<in> set (observed calls). \<not> has_status_code c) \<longrightarrow>
           successful r = 0 \<and> failed r = requests \<and> success_rate r = 0
           \<and> avg_response_time r = 0 \<and> min_response_time r = 0
           \<and> max_response_time r = 0 \<and> median_response_time r = 0
           \<and> stdev_response_time r = 0 \<and> p95_response_time r = 0
           \<and> p99_response_time r = 0))
   \<and> s_errors (collect (observed calls)) = diagnostics_of (observed calls)
   \<and> length (diagnostics_of (observed calls))
       = length (filter (\<lambda>c. \<not> has_status_code c) (observed calls))
   \<and> (tc \<in> {ConnectTimedOut, ReadTimedOut, WriteTimedOut, PoolTimedOut} \<longrightarrow>
        diagnostics_of (observed [(i, Threw (Exc (httpx_raises tc) msg))])
          = [''Request '' @ str_nat i @ '': Timeout''])
   \<and> (cc \<in> {DnsFailure, ConnectionRefused, TlsHandshakeFailure} \<longrightarrow>
        diagnostics_of (observed [(i, Threw (Exc (httpx_raises cc) msg))])
          = [''Request '' @ str_nat i @ '': Connection error''])
   \<and> (rc \<in> {ResetWhileReading, ResetWhileWriting} \<longrightarrow>
        diagnostics_of (observed [(i, Threw (Exc (httpx_raises rc) msg))])
          = [''Request '' @ str_nat i @ '': '' @ msg])
   \<and> (\<not> is_instance cls Httpx_TimeoutException \<and> \<not> is_instance cls Httpx_ConnectError \<longrightarrow>
        diagnostics_of (observed [(i, Threw (Exc cls msg))])
          = [''Request '' @ str_nat i @ '': '' @ msg])"
proof -
  have run: "\<exists>r. run requests (observed calls) dur = Inr r
      \<and> errors r = take 10 (diagnostics_of (observed calls))
      \<and> ((\<forall>c \<in> set (observed calls). \<not> has_status_code c) \<longrightarrow>
           successful r = 0 \<and> failed r = requests \<and> success_rate r = 0
           \<and> avg_response_time r = 0 \<and> min_response_time r = 0
           \<and> max_response_time r = 0 \<and> median_response_time r = 0
           \<and> stdev_response_time r = 0 \<and> p95_response_time r = 0
           \<and> p99_response_time r = 0)"
  proof (cases "\<forall>c \<in> set (observed calls). \<not> has_status_code c")
    case True
    show ?thesis
      unfolding run_all_failed[OF True] by simp
  next
    case False
    then show ?thesis
      using run_counts[of requests "observed calls" dur] by blast
  qed
  have t: "diagnostics_of (observed [(i, Threw (Exc (httpx_raises tc) msg))])
          = [''Request '' @ str_nat i @ '': Timeout'']"
    if "tc \<in> {ConnectTimedOut, ReadTimedOut, WriteTimedOut, PoolTimedOut}"
    using that by (auto simp: observed_single caught_as_def timeout_classes)
  have c: "diagnostics_of (observed [(i, Threw (Exc (httpx_raises cc) msg))])
          = [''Request '' @ str_nat i @ '': Connection error'']"
    if "cc \<in> {DnsFailure, ConnectionRefused, TlsHandshakeFailure}"
    using that by (auto simp: observed_single caught_as_def timeout_classes connect_error_classes)
  have r: "diagnostics_of (observed [(i, Threw (Exc (httpx_raises rc) msg))])
          = [''Request '' @ str_nat i @ '': '' @ msg]"
    if "rc \<in> {ResetWhileReading, ResetWhileWriting}"
    using that by (auto simp: observed_single caught_as_def timeout_classes connect_error_classes)
  have o: "diagnostics_of (observed [(i, Threw (Exc cls msg))])
          = [''Request '' @ str_nat i @ '': '' @ msg]"
    if "\<not> is_instance cls Httpx_TimeoutException \<and> \<not> is_instance cls Httpx_ConnectError"
    using that by (simp add: observed_single caught_as_def)
  show ?thesis
    using run t c r o
    by (simp only: collect_fields length_diagnostics_of simp_thms) blast
qed

theorem failures_classified_run_completes_witness:
  "\<exists>r. run 4 (observed
          [(0, Threw (Exc (httpx_raises ReadTimedOut) ''timed out'')),
           (1, Threw (Exc (httpx_raises DnsFailure) ''Name or service not known'')),
           (2, Threw (Exc (httpx_raises ResetWhileReading) ''Connection reset by peer'')),
           (3, Threw (Exc Py_Exception ''boom''))]) 1 = Inr r
     \<and> errors r = [''Request 0: Timeout'', ''Request 1: Connection error'',
                   ''Request 2: Connection reset by peer'', ''Request 3: boom'']
     \<and> successful r = 0 \<and> failed r = 4 \<and> success_rate r = 0
     \<and> avg_response_time r = 0 \<and> p95_response_time r = 0 \<and> p99_response_time r = 0"
  using failures_classified_run_completes[where requests = 4 and dur = 1 and i = 0
      and msg = "''boom''" and cls = Py_Exception and tc = ReadTimedOut and cc = DnsFailure
      and rc = ResetWhileReading
      and calls = "[(0, Threw (Exc (httpx_raises ReadTimedOut) ''timed out'')),
           (1, Threw (Exc (httpx_raises DnsFailure) ''Name or service not known'')),
           (2, Threw (Exc (httpx_raises ResetWhileReading) ''Connection reset by peer'')),
           (3, Threw (Exc Py_Exception ''boom''))]"]
  by (simp add: observed_def caught_as_def timeout_classes connect_error_classes
      run_all_failed)

subsection \<open>Headers and body\<close>

lemma upper_literals:
  "upper ''GET'' = ''GET''" "upper ''POST'' = ''POST''" "upper ''DELETE'' = ''DELETE''"
  "upper ''get'' = ''GET''"
  by (simp_all add: upper_def upper_char_def)

text \<open>
  C9, as stated, fails: a GET and a DELETE are issued without the body, while a POST
  with the same arguments carries it.
\<close>

theorem body_not_passed_for_get_delete:
  "passed_content (client_call_for ''GET'' ''http://example.test/'' None (Some ''payload''))
     = None
   \<and> passed_content (client_call_for ''DELETE'' ''http://example.test/'' None (Some ''payload''))
     = None
   \<and> passed_content (client_call_for ''POST'' ''http://example.test/'' None (Some ''payload''))
     = Some ''payload''"
  by (simp add: client_call_for_def upper_literals)

text \<open>
  C9, amended. Whatever the method, the call gets the run's headers; it gets the run's
  body as content for POST, PUT and every other verb, and no content for GET and
  DELETE (the method compared in upper case). The call does not depend on the request
  id, so all requests of a run are issued alike.
\<close>

theorem headers_always_body_by_method:
  "passed_headers (client_call_for method url hdrs body) = hdrs
   \<and> passed_content (client_call_for method url hdrs body)
       = (if upper method = ''GET'' \<or> upper method = ''DELETE'' then None else body)"
  by (simp add: client_call_for_def)

subsection \<open>The semaphore\<close>










































end
